theory Spec2Isabelle
  imports Complex_Main "HOL-Library.Sublist" "HOL-Library.Char_ord" "HOL-Library.List_Lexorder"
begin

section \<open>Python values and errors\<close>

text \<open>
  The tools of \<^verbatim>\<open>puch_mcp.py\<close> exchange JSON-like Python values: the argument of
  \<^verbatim>\<open>redflags_validate\<close> is typed \<^verbatim>\<open>Dict[str, Any]\<close>, and the result of every tool is a
  dictionary. A dictionary is an association list in insertion order, looked up with
  \<^const>\<open>map_of\<close>. A string is a list of code points below 256 (\<^typ>\<open>char\<close>); texts with
  code points beyond that range are outside this development. Floating-point numbers are
  not part of \<^verbatim>\<open>pyval\<close>.
\<close>

datatype pyval =
    PNone
  | PBool bool
  | PInt int
  | PStr string
  | PList "pyval list"
  | PDict "(string \<times> pyval) list"

text \<open>
  The exceptions the code can raise: the \<^verbatim>\<open>McpError\<close> it constructs itself, always with the
  code \<^verbatim>\<open>INVALID_PARAMS\<close>, and the built-in \<^verbatim>\<open>TypeError\<close>, \<^verbatim>\<open>ValueError\<close> and
  \<^verbatim>\<open>OverflowError\<close> of the Python operations it calls.
\<close>

datatype error_code = INVALID_PARAMS

datatype error =
    McpError error_code string
  | TypeError
  | ValueError
  | OverflowError

text \<open>
  The failure signals the specification names. The only error the code raises on purpose,
  \<^verbatim>\<open>McpError\<close> with \<^verbatim>\<open>INVALID_PARAMS\<close>, is the specification's \<^verbatim>\<open>InvalidInput\<close>; an
  uncaught built-in exception is none of the named signals.
\<close>

datatype failure = InvalidInput | NoFacilityAvailable

fun signal :: "error \<Rightarrow> failure option" where
  "signal (McpError INVALID_PARAMS msg) = Some InvalidInput"
| "signal TypeError = None"
| "signal ValueError = None"
| "signal OverflowError = None"

section \<open>Character classes and string operations\<close>

text \<open>
  \<^verbatim>\<open>str.isspace\<close>, which \<^verbatim>\<open>str.strip()\<close> and the pattern \<^verbatim>\<open>\s\<close> use: the code points
  9 to 13, 28 to 32, 133 and 160.
\<close>

definition is_space :: "char \<Rightarrow> bool" where
  "is_space c =
     (let n = (of_char c :: nat)
      in (9 \<le> n \<and> n \<le> 13) \<or> (28 \<le> n \<and> n \<le> 32) \<or> n = 133 \<or> n = 160)"

text \<open>The pattern \<^verbatim>\<open>\d\<close>: a decimal digit; below 256 these are \<^verbatim>\<open>0\<close> to \<^verbatim>\<open>9\<close>.\<close>

definition is_digit :: "char \<Rightarrow> bool" where
  "is_digit c = (let n = (of_char c :: nat) in 48 \<le> n \<and> n \<le> 57)"

text \<open>
  The pattern \<^verbatim>\<open>\w\<close>: an alphanumeric character or the underscore. Below 256 the
  alphanumeric characters are the ASCII letters and digits, the letters of 192 to 255
  (without the signs 215 and 247), 170, 181, 186, and the numeric characters 178, 179, 185,
  188, 189, 190.
\<close>

definition is_word :: "char \<Rightarrow> bool" where
  "is_word c =
     (let n = (of_char c :: nat)
      in (48 \<le> n \<and> n \<le> 57) \<or> (65 \<le> n \<and> n \<le> 90) \<or> n = 95 \<or> (97 \<le> n \<and> n \<le> 122)
         \<or> n = 170 \<or> n = 178 \<or> n = 179 \<or> n = 181 \<or> n = 185 \<or> n = 186
         \<or> n = 188 \<or> n = 189 \<or> n = 190
         \<or> (192 \<le> n \<and> n \<le> 214) \<or> (216 \<le> n \<and> n \<le> 246) \<or> (248 \<le> n \<and> n \<le> 255))"

text \<open>
  \<^verbatim>\<open>str.lower()\<close>, one character at a time: the upper-case letters below 256 are 65 to 90
  and 192 to 222 without 215, and each has its lower-case letter 32 places later.
\<close>

definition lower_char :: "char \<Rightarrow> char" where
  "lower_char c =
     (let n = (of_char c :: nat)
      in if (65 \<le> n \<and> n \<le> 90) \<or> (192 \<le> n \<and> n \<le> 222 \<and> n \<noteq> 215)
         then char_of (n + 32) else c)"

definition lower :: "string \<Rightarrow> string" where
  "lower s = map lower_char s"

definition strip :: "string \<Rightarrow> string" where
  "strip s = rev (dropWhile is_space (rev (dropWhile is_space s)))"

section \<open>The age pattern\<close>

text \<open>
  \<^verbatim>\<open>_AGE_RX = re.compile(r"\b(\d{1,3})\s*(?:y|yr|yrs|years?)\b", re.I)\<close>

  The pattern is embedded as a backtracking matcher in continuation-passing style, which
  is how \<^verbatim>\<open>re\<close> matches: a matcher takes the subject, a position and a continuation
  for the rest of the pattern; it answers with the first success, trying its choices in
  the order of the pattern (greedy repetition from the longest, alternatives from the
  left).
\<close>

type_synonym 'r matcher = "string \<Rightarrow> nat \<Rightarrow> (nat \<Rightarrow> 'r option) \<Rightarrow> 'r option"

text \<open>\<^verbatim>\<open>\b\<close>: exactly one of the characters before and after the position is a word character.\<close>

definition at_boundary :: "string \<Rightarrow> nat \<Rightarrow> bool" where
  "at_boundary s i =
     ((0 < i \<and> i \<le> length s \<and> is_word (s ! (i - 1))) \<noteq> (i < length s \<and> is_word (s ! i)))"

definition rx_wordb :: "'r matcher" where
  "rx_wordb s i k = (if at_boundary s i then k i else None)"

text \<open>A literal under \<^verbatim>\<open>re.I\<close>: the lower-cased subject character is the pattern's.\<close>

fun rx_str_i :: "string \<Rightarrow> 'r matcher" where
  "rx_str_i [] s i k = k i"
| "rx_str_i (p # ps) s i k =
     (if i < length s \<and> lower_char (s ! i) = lower_char p then rx_str_i ps s (Suc i) k
      else None)"

text \<open>
  Backtracking over the length of a greedy repetition of a character class: the
  continuation is tried after \<open>n\<close> more characters, then after \<open>n - 1\<close>, down to none.
\<close>

fun rx_backoff :: "(nat \<Rightarrow> 'r option) \<Rightarrow> nat \<Rightarrow> nat \<Rightarrow> 'r option" where
  "rx_backoff k i 0 = k i"
| "rx_backoff k i (Suc n) =
     (case k (i + Suc n) of Some r \<Rightarrow> Some r | None \<Rightarrow> rx_backoff k i n)"

definition run :: "(char \<Rightarrow> bool) \<Rightarrow> string \<Rightarrow> nat \<Rightarrow> nat" where
  "run P s i = length (takeWhile P (drop i s))"

text \<open>\<^verbatim>\<open>C{lo,hi}\<close> and \<^verbatim>\<open>C*\<close> for a character class \<open>C\<close>.\<close>

definition rx_repeat :: "(char \<Rightarrow> bool) \<Rightarrow> nat \<Rightarrow> nat \<Rightarrow> 'r matcher" where
  "rx_repeat P lo hi s i k =
     (let m = min hi (run P s i)
      in if m < lo then None else rx_backoff k (i + lo) (m - lo))"

definition rx_star :: "(char \<Rightarrow> bool) \<Rightarrow> 'r matcher" where
  "rx_star P s i k = rx_backoff k i (run P s i)"

definition rx_seq :: "'r matcher \<Rightarrow> 'r matcher \<Rightarrow> 'r matcher" where
  "rx_seq a b s i k = a s i (\<lambda>j. b s j k)"

definition rx_opt :: "'r matcher \<Rightarrow> 'r matcher" where
  "rx_opt a s i k = (case a s i k of Some r \<Rightarrow> Some r | None \<Rightarrow> k i)"

fun rx_alt :: "'r matcher list \<Rightarrow> 'r matcher" where
  "rx_alt [] s i k = None"
| "rx_alt (a # as) s i k = (case a s i k of Some r \<Rightarrow> Some r | None \<Rightarrow> rx_alt as s i k)"

text \<open>A match of the whole pattern that starts at \<open>i\<close>; the answer is group 1.\<close>

definition AGE_RX_match :: "string \<Rightarrow> nat \<Rightarrow> string option" where
  "AGE_RX_match s i =
     rx_wordb s i (\<lambda>i1.
     rx_repeat is_digit 1 3 s i1 (\<lambda>i2.
     rx_star is_space s i2 (\<lambda>i3.
     rx_alt [rx_str_i ''y'', rx_str_i ''yr'', rx_str_i ''yrs'',
             rx_seq (rx_str_i ''year'') (rx_opt (rx_str_i ''s''))] s i3 (\<lambda>i4.
     rx_wordb s i4 (\<lambda>i5.
     Some (take (i2 - i1) (drop i1 s)))))))"

text \<open>\<^verbatim>\<open>search\<close>: the first start position, from the left, at which the pattern matches.\<close>

fun rx_search :: "(nat \<Rightarrow> 'r option) \<Rightarrow> nat \<Rightarrow> nat \<Rightarrow> 'r option" where
  "rx_search f i 0 = f i"
| "rx_search f i (Suc n) = (case f i of Some r \<Rightarrow> Some r | None \<Rightarrow> rx_search f (Suc i) n)"

definition AGE_RX_search :: "string \<Rightarrow> string option" where
  "AGE_RX_search s = rx_search (AGE_RX_match s) 0 (length s)"

text \<open>\<^verbatim>\<open>int(...)\<close> of a string of decimal digits; anything else raises \<^verbatim>\<open>ValueError\<close>.\<close>

definition digit_val :: "char \<Rightarrow> int" where
  "digit_val c = int (of_char c) - 48"

definition py_int :: "string \<Rightarrow> error + int" where
  "py_int s =
     (if s \<noteq> [] \<and> list_all is_digit s then Inr (foldl (\<lambda>a c. 10 * a + digit_val c) 0 s)
      else Inl ValueError)"

section \<open>The extractor\<close>

text \<open>
  \<^verbatim>\<open>
  def _extract_age(text: str) -> Optional[int]:
      m = _AGE_RX.search(text or "")
      if not m:
          return None
      try:
          age = int(m.group(1))
          if 0 <= age <= 120:
              return age
      except Exception:
          return None
      return age
  \<close>
  The last line returns the parsed number when the range test fails.
\<close>

definition extract_age :: "string \<Rightarrow> int option" where
  "extract_age text =
     (case AGE_RX_search text of
        None \<Rightarrow> None
      | Some g \<Rightarrow>
          (case py_int g of
             Inl e \<Rightarrow> None
           | Inr age \<Rightarrow> if 0 \<le> age \<and> age \<le> 120 then Some age else Some age))"

text \<open>The dictionary \<^verbatim>\<open>_EMS_SYMPTOMS\<close>, in insertion order.\<close>

definition EMS_SYMPTOMS :: "(string \<times> string list) list" where
  "EMS_SYMPTOMS =
     [(''chest_pain'', [''chest pain'', ''pressure in chest'', ''tight chest'']),
      (''breathlessness'', [''short of breath'', ''breathless'', ''difficulty breathing'']),
      (''unconscious'', [''unconscious'', ''not responding'', ''passed out'', ''fainted'']),
      (''bleeding'', [''bleeding'', ''profuse bleed'', ''blood everywhere'']),
      (''seizure'', [''seizure'', ''fitting'', ''convulsion'']),
      (''stroke_signs'', [''face droop'', ''arm weakness'', ''slurred speech'', ''stroke'']),
      (''fever'', [''fever'', ''temperature'', ''high temp'', ''pyrexia'']),
      (''pain'', [''pain'', ''ache'', ''hurts''])]"

text \<open>
  \<^verbatim>\<open>
  def _flags_from_text(text: str) -> List[str]:
      found = set()
      low = (text or "").lower()
      for flag, phrases in _EMS_SYMPTOMS.items():
          for p in phrases:
              if p in low:
                  found.add(flag)
                  break
      return sorted(found)
  \<close>
  The inner loop stops at the first phrase that occurs in the text; \<^verbatim>\<open>p in low\<close> is
  \<^const>\<open>sublist\<close>. \<^verbatim>\<open>sorted\<close> orders strings by code point, as the order on
  \<^typ>\<open>string\<close> does.
\<close>

fun any_phrase :: "string list \<Rightarrow> string \<Rightarrow> bool" where
  "any_phrase [] low = False"
| "any_phrase (p # ps) low = (if sublist p low then True else any_phrase ps low)"

fun found_flags :: "(string \<times> string list) list \<Rightarrow> string \<Rightarrow> string list" where
  "found_flags [] low = []"
| "found_flags ((flag, phrases) # items) low =
     (if any_phrase phrases low then flag # found_flags items low else found_flags items low)"

definition flags_from_text :: "string \<Rightarrow> string list" where
  "flags_from_text text =
     (let low = lower text;
          found = found_flags EMS_SYMPTOMS low
      in sort (remdups found))"

section \<open>The classifier\<close>

text \<open>
  \<^verbatim>\<open>set(flags)\<close> raises \<^verbatim>\<open>TypeError\<close> on an element that cannot be hashed: a list or a
  dictionary.
\<close>

fun hashable :: "pyval \<Rightarrow> bool" where
  "hashable (PList xs) = False"
| "hashable (PDict d) = False"
| "hashable v = True"

text \<open>
  \<^verbatim>\<open>age < 12\<close> and \<^verbatim>\<open>age > 75\<close> for a value that is not \<^verbatim>\<open>None\<close>: integers compare,
  \<^verbatim>\<open>bool\<close> is a subclass of \<^verbatim>\<open>int\<close>, and strings, lists and dictionaries raise
  \<^verbatim>\<open>TypeError\<close>.
\<close>

fun py_lt_int :: "pyval \<Rightarrow> int \<Rightarrow> error + bool" where
  "py_lt_int (PInt n) k = Inr (n < k)"
| "py_lt_int (PBool b) k = Inr ((if b then 1 else 0) < k)"
| "py_lt_int v k = Inl TypeError"

fun py_gt_int :: "pyval \<Rightarrow> int \<Rightarrow> error + bool" where
  "py_gt_int (PInt n) k = Inr (n > k)"
| "py_gt_int (PBool b) k = Inr ((if b then 1 else 0) > k)"
| "py_gt_int v k = Inl TypeError"

text \<open>
  The condition \<^verbatim>\<open>age is not None and (age < 12 or age > 75) and f\<close>, evaluated from the
  left as Python does: \<^verbatim>\<open>age > 75\<close> only when \<^verbatim>\<open>age < 12\<close> is false, and \<^verbatim>\<open>f\<close> only
  when one of the two holds.
\<close>

definition age_escalates :: "pyval \<Rightarrow> pyval set \<Rightarrow> error + bool" where
  "age_escalates age f =
     (if age = PNone then Inr False
      else case py_lt_int age 12 of
             Inl e \<Rightarrow> Inl e
           | Inr True \<Rightarrow> Inr (f \<noteq> {})
           | Inr False \<Rightarrow>
               (case py_gt_int age 75 of
                  Inl e \<Rightarrow> Inl e
                | Inr b \<Rightarrow> Inr (b \<and> f \<noteq> {})))"

text \<open>
  \<^verbatim>\<open>
  def _level_from_flags(flags: List[str], age: Optional[int]) -> str:
      critical = {"unconscious", "bleeding"}
      als = {"chest_pain", "breathlessness", "seizure", "stroke_signs"}
      f = set(flags or [])
      if f & critical:
          return "Critical"
      if f & als:
          return "ALS"
      if age is not None and (age < 12 or age > 75) and f:
          return "ALS"
      return "BLS" if f else "General"
  \<close>
  The argument is the list that \<^verbatim>\<open>_redflags_core\<close> makes, for which \<^verbatim>\<open>flags or []\<close> is
  the list itself. Python's set identifies \<^verbatim>\<open>1\<close> with \<^verbatim>\<open>True\<close>; this changes neither an intersection
  with a set of strings nor whether the set is empty, the only two things the function
  asks of \<^verbatim>\<open>f\<close>.
\<close>

definition level_from_flags :: "pyval list \<Rightarrow> pyval \<Rightarrow> error + string" where
  "level_from_flags flags age =
     (let critical = {PStr ''unconscious'', PStr ''bleeding''};
          als = {PStr ''chest_pain'', PStr ''breathlessness'', PStr ''seizure'',
                 PStr ''stroke_signs''}
      in if \<not> list_all hashable flags then Inl TypeError
         else let f = set flags
              in if f \<inter> critical \<noteq> {} then Inr ''Critical''
                 else if f \<inter> als \<noteq> {} then Inr ''ALS''
                 else case age_escalates age f of
                        Inl e \<Rightarrow> Inl e
                      | Inr True \<Rightarrow> Inr ''ALS''
                      | Inr False \<Rightarrow> Inr (if f \<noteq> {} then ''BLS'' else ''General''))"

section \<open>The tools\<close>

text \<open>
  \<^verbatim>\<open>
  async def symptom_extract_tool(text, age_years = None):
      if not isinstance(text, str) or not text.strip():
          raise McpError(ErrorData(code=INVALID_PARAMS, message="text is required"))
      age = age_years if age_years is not None else _extract_age(text)
      flags = _flags_from_text(text)
      return {"age_years": age, "free_text": text, "flags": flags, "symptoms": flags}
  \<close>
\<close>

definition opt_int :: "int option \<Rightarrow> pyval" where
  "opt_int a = (case a of None \<Rightarrow> PNone | Some n \<Rightarrow> PInt n)"

definition symptom_extract_tool :: "pyval \<Rightarrow> pyval \<Rightarrow> error + pyval" where
  "symptom_extract_tool text age_years =
     (case text of
        PStr t \<Rightarrow>
          if strip t = [] then Inl (McpError INVALID_PARAMS ''text is required'')
          else let age = (if age_years \<noteq> PNone then age_years else opt_int (extract_age t));
                   flags = PList (map PStr (flags_from_text t))
               in Inr (PDict [(''age_years'', age), (''free_text'', text),
                              (''flags'', flags), (''symptoms'', flags)])
      | _ \<Rightarrow> Inl (McpError INVALID_PARAMS ''text is required''))"

text \<open>
  \<^verbatim>\<open>list(x)\<close>: the elements of a list, the characters of a string, the keys of a
  dictionary; \<^verbatim>\<open>TypeError\<close> for a value that is not iterable.
\<close>

fun py_list :: "pyval \<Rightarrow> error + pyval list" where
  "py_list (PList xs) = Inr xs"
| "py_list (PStr s) = Inr (map (\<lambda>c. PStr [c]) s)"
| "py_list (PDict d) = Inr (map (\<lambda>kv. PStr (fst kv)) d)"
| "py_list v = Inl TypeError"

text \<open>\<^verbatim>\<open>d.get(key, default)\<close>; \<^verbatim>\<open>d.get(key)\<close> has the default \<^verbatim>\<open>None\<close>.\<close>

definition dict_get :: "(string \<times> pyval) list \<Rightarrow> string \<Rightarrow> pyval \<Rightarrow> pyval" where
  "dict_get d key dflt = (case map_of d key of None \<Rightarrow> dflt | Some v \<Rightarrow> v)"

text \<open>
  \<^verbatim>\<open>
  async def _redflags_core(structured):
      if not isinstance(structured, dict):
          raise McpError(ErrorData(code=INVALID_PARAMS, message="structured must be an object"))
      flags = list(structured.get("flags", []))
      age = structured.get("age_years")
      level = _level_from_flags(flags, age)
      return {"level_of_care": level, "flags": flags, "age_years": age}
  \<close>
  \<^verbatim>\<open>redflags_validate\<close> returns what \<^verbatim>\<open>_redflags_core\<close> returns.
\<close>

definition redflags_core :: "pyval \<Rightarrow> error + pyval" where
  "redflags_core structured =
     (case structured of
        PDict d \<Rightarrow>
          (case py_list (dict_get d ''flags'' (PList [])) of
             Inl e \<Rightarrow> Inl e
           | Inr flags \<Rightarrow>
               (let age = dict_get d ''age_years'' PNone
                in case level_from_flags flags age of
                     Inl e \<Rightarrow> Inl e
                   | Inr level \<Rightarrow>
                       Inr (PDict [(''level_of_care'', PStr level), (''flags'', PList flags),
                                   (''age_years'', age)])))
      | _ \<Rightarrow> Inl (McpError INVALID_PARAMS ''structured must be an object''))"

definition redflags_validate :: "pyval \<Rightarrow> error + pyval" where
  "redflags_validate structured = redflags_core structured"

text \<open>The pipeline: the result of the extractor is the argument of the classifier.\<close>

definition extract_then_classify :: "pyval \<Rightarrow> pyval \<Rightarrow> error + pyval" where
  "extract_then_classify text age_years =
     (case symptom_extract_tool text age_years of
        Inl e \<Rightarrow> Inl e
      | Inr structured \<Rightarrow> redflags_validate structured)"

text \<open>Reading a field of a result dictionary.\<close>

definition field :: "string \<Rightarrow> error + pyval \<Rightarrow> pyval option" where
  "field key r = (case r of Inr (PDict d) \<Rightarrow> map_of d key | _ \<Rightarrow> None)"

definition failure_of :: "error + 'a \<Rightarrow> failure option" where
  "failure_of r = (case r of Inl e \<Rightarrow> signal e | Inr v \<Rightarrow> None)"

section \<open>The locator\<close>

text \<open>
  The arithmetic of the locator is that of Python's floating-point numbers and of the
  functions of the \<^verbatim>\<open>math\<close> module. It is not defined here: it is a parameter, a record
  of the operations the code applies, over a type \<open>'f\<close> of numbers, and every statement
  about the locator is made for every such record. The operations that can raise on a
  floating-point number return an error or a number: \<^verbatim>\<open>sin\<close> and \<^verbatim>\<open>cos\<close> (\<^verbatim>\<open>ValueError\<close>
  on an infinity), \<^verbatim>\<open>sqrt\<close> (\<^verbatim>\<open>ValueError\<close> on a negative number) and \<^verbatim>\<open>**\<close>
  (\<^verbatim>\<open>OverflowError\<close>). \<^verbatim>\<open>f_int\<close> is the conversion of an integer operand, \<^verbatim>\<open>f_round\<close> is
  \<^verbatim>\<open>round(x, n)\<close> and \<^verbatim>\<open>f_lt\<close> is \<^verbatim>\<open><\<close>.
\<close>

record 'f arith =
  f_int :: "int \<Rightarrow> 'f"
  f_add :: "'f \<Rightarrow> 'f \<Rightarrow> 'f"
  f_sub :: "'f \<Rightarrow> 'f \<Rightarrow> 'f"
  f_mul :: "'f \<Rightarrow> 'f \<Rightarrow> 'f"
  f_div :: "'f \<Rightarrow> 'f \<Rightarrow> 'f"
  f_pow :: "'f \<Rightarrow> int \<Rightarrow> error + 'f"
  f_radians :: "'f \<Rightarrow> 'f"
  f_sin :: "'f \<Rightarrow> error + 'f"
  f_cos :: "'f \<Rightarrow> error + 'f"
  f_sqrt :: "'f \<Rightarrow> error + 'f"
  f_atan2 :: "'f \<Rightarrow> 'f \<Rightarrow> 'f"
  f_round :: "'f \<Rightarrow> int \<Rightarrow> 'f"
  f_lt :: "'f \<Rightarrow> 'f \<Rightarrow> bool"

text \<open>
  An entry of \<^verbatim>\<open>hospitals.json\<close>: the keys \<^verbatim>\<open>name\<close>, \<^verbatim>\<open>lat\<close> and \<^verbatim>\<open>lng\<close>, which the
  code reads with \<^verbatim>\<open>h[...]\<close>, and the keys \<^verbatim>\<open>phone\<close> and \<^verbatim>\<open>ambulance_phone\<close>, which it
  reads with \<^verbatim>\<open>.get\<close> and which may be missing. The file's content is an argument of the
  model.
\<close>

record 'f facility =
  h_name :: string
  h_lat :: 'f
  h_lng :: 'f
  h_phone :: "string option"
  h_ambulance_phone :: "string option"

record 'f location_result =
  nearest_hospital :: string
  phone :: "string option"
  distance_km :: 'f

text \<open>An exception of a step ends the computation; otherwise the next step gets its value.\<close>

definition and_then :: "error + 'a \<Rightarrow> ('a \<Rightarrow> error + 'b) \<Rightarrow> error + 'b" where
  "and_then r k = (case r of Inl e \<Rightarrow> Inl e | Inr v \<Rightarrow> k v)"

text \<open>
  \<^verbatim>\<open>
  def distance(lat1, lon1, lat2, lon2):
      R = 6371
      dlat = radians(lat2 - lat1)
      dlon = radians(lon2 - lon1)
      a = sin(dlat/2)**2 + cos(radians(lat1)) * cos(radians(lat2)) * sin(dlon/2)**2
      c = 2 * atan2(sqrt(a), sqrt(1-a))
      return R * c
  \<close>
  The fallible operations are taken in Python's order of evaluation, from the left.
\<close>

definition distance :: "'f arith \<Rightarrow> 'f \<Rightarrow> 'f \<Rightarrow> 'f \<Rightarrow> 'f \<Rightarrow> error + 'f" where
  "distance ar lat1 lon1 lat2 lon2 =
     (let R = f_int ar 6371;
          dlat = f_radians ar (f_sub ar lat2 lat1);
          dlon = f_radians ar (f_sub ar lon2 lon1)
      in and_then (f_sin ar (f_div ar dlat (f_int ar 2))) (\<lambda>s1.
         and_then (f_pow ar s1 2) (\<lambda>p1.
         and_then (f_cos ar (f_radians ar lat1)) (\<lambda>c1.
         and_then (f_cos ar (f_radians ar lat2)) (\<lambda>c2.
         and_then (f_sin ar (f_div ar dlon (f_int ar 2))) (\<lambda>s2.
         and_then (f_pow ar s2 2) (\<lambda>p2.
         let a = f_add ar p1 (f_mul ar (f_mul ar c1 c2) p2)
         in and_then (f_sqrt ar a) (\<lambda>q1.
            and_then (f_sqrt ar (f_sub ar (f_int ar 1) a)) (\<lambda>q2.
            let c = f_mul ar (f_int ar 2) (f_atan2 ar q1 q2)
            in Inr (f_mul ar R c))))))))))"

text \<open>
  \<^verbatim>\<open>min(xs, key=...)\<close>: \<^verbatim>\<open>ValueError\<close> on an empty sequence; otherwise the key of each
  element is computed once, in order, and the scan keeps the first element and replaces
  it only by an element whose key is \<^verbatim>\<open><\<close> the kept one's. An exception of the key
  function ends the scan.
\<close>

fun min_scan ::
    "('k \<Rightarrow> 'k \<Rightarrow> bool) \<Rightarrow> ('a \<Rightarrow> error + 'k) \<Rightarrow> 'a \<Rightarrow> 'k \<Rightarrow> 'a list \<Rightarrow> error + 'a" where
  "min_scan lt key best kbest [] = Inr best"
| "min_scan lt key best kbest (x # xs) =
     (case key x of
        Inl e \<Rightarrow> Inl e
      | Inr kx \<Rightarrow>
          if lt kx kbest then min_scan lt key x kx xs else min_scan lt key best kbest xs)"

definition py_min ::
    "('k \<Rightarrow> 'k \<Rightarrow> bool) \<Rightarrow> 'a list \<Rightarrow> ('a \<Rightarrow> error + 'k) \<Rightarrow> error + 'a" where
  "py_min lt xs key =
     (case xs of
        [] \<Rightarrow> Inl ValueError
      | x # rest \<Rightarrow> (case key x of Inl e \<Rightarrow> Inl e | Inr kx \<Rightarrow> min_scan lt key x kx rest))"

text \<open>
  \<^verbatim>\<open>a or b\<close> on the results of \<^verbatim>\<open>.get\<close>: \<^verbatim>\<open>a\<close> when it is truthy, that is neither
  \<^verbatim>\<open>None\<close> nor the empty string, and \<^verbatim>\<open>b\<close> otherwise.
\<close>

definition py_or :: "string option \<Rightarrow> string option \<Rightarrow> string option" where
  "py_or a b = (if a \<noteq> None \<and> a \<noteq> Some [] then a else b)"

text \<open>
  \<^verbatim>\<open>
  async def find_hospital_tool(severity, lat, lng):
      hospitals = json.load(open("hospitals.json", "r", encoding="utf-8"))
      ...
      nearest = min(hospitals, key=lambda h: distance(lat, lng, h["lat"], h["lng"]))
      return {
          "nearest_hospital": nearest["name"],
          "phone": nearest.get("ambulance_phone") or nearest.get("phone"),
          "distance_km": round(distance(lat, lng, nearest["lat"], nearest["lng"]), 2)
      }
  \<close>
\<close>

definition find_hospital_tool ::
    "'f arith \<Rightarrow> 'f facility list \<Rightarrow> string \<Rightarrow> 'f \<Rightarrow> 'f \<Rightarrow> error + 'f location_result" where
  "find_hospital_tool ar hospitals severity lat lng =
     and_then (py_min (f_lt ar) hospitals (\<lambda>h. distance ar lat lng (h_lat h) (h_lng h)))
       (\<lambda>nearest.
     and_then (distance ar lat lng (h_lat nearest) (h_lng nearest)) (\<lambda>d.
       Inr \<lparr> nearest_hospital = h_name nearest,
             phone = py_or (h_ambulance_phone nearest) (h_phone nearest),
             distance_km = f_round ar d 2 \<rparr>))"

text \<open>
  An arithmetic to evaluate examples with: the exact operations on the real numbers,
  \<^verbatim>\<open>sqrt\<close> raising on a negative number as \<^verbatim>\<open>math.sqrt\<close> does. It is not the arithmetic
  of the code. The examples below apply it to the numbers 0 and 1 only, where every
  operation of \<^const>\<open>distance\<close> has the same exact result in floating-point arithmetic.
\<close>

definition exact_atan2 :: "real \<Rightarrow> real \<Rightarrow> real" where
  "exact_atan2 y x =
     (if 0 < x then arctan (y / x)
      else if x < 0 \<and> 0 \<le> y then arctan (y / x) + pi
      else if x < 0 \<and> y < 0 then arctan (y / x) - pi
      else if 0 < y then pi / 2
      else if y < 0 then - pi / 2
      else 0)"

definition exact_round :: "real \<Rightarrow> int \<Rightarrow> real" where
  "exact_round x n =
     (let y = x * 10 powi n;
          m = \<lfloor>y\<rfloor>;
          r = y - of_int m
      in of_int (if r < 1 / 2 then m else if 1 / 2 < r then m + 1
                 else if even m then m else m + 1) / 10 powi n)"

definition exact :: "real arith" where
  "exact =
     \<lparr> f_int = of_int,
       f_add = (\<lambda>x y. x + y),
       f_sub = (\<lambda>x y. x - y),
       f_mul = (\<lambda>x y. x * y),
       f_div = (\<lambda>x y. x / y),
       f_pow = (\<lambda>x n. Inr (x powi n)),
       f_radians = (\<lambda>x. x * pi / 180),
       f_sin = (\<lambda>x. Inr (sin x)),
       f_cos = (\<lambda>x. Inr (cos x)),
       f_sqrt = (\<lambda>x. if x < 0 then Inl ValueError else Inr (sqrt x)),
       f_atan2 = exact_atan2,
       f_round = exact_round,
       f_lt = (\<lambda>x y. x < y) \<rparr>"



section \<open>The classification rules of the specification\<close>

text \<open>
  The four levels and the decision list of the specification, written from its words, to
  compare \<^const>\<open>level_from_flags\<close> with: (1) a flag of unconscious or bleeding gives
  Critical; (2) else a flag of chest\_pain, breathlessness, seizure or stroke\_signs gives
  ALS; (3) else a known age below 12 or above 75 with some flag gives ALS; (4) else some
  flag gives BLS; (5) else General.
\<close>

datatype severity_level = General | BLS | ALS | Critical

fun level_name :: "severity_level \<Rightarrow> string" where
  "level_name General = ''General''"
| "level_name BLS = ''BLS''"
| "level_name ALS = ''ALS''"
| "level_name Critical = ''Critical''"

fun urgency :: "severity_level \<Rightarrow> nat" where
  "urgency General = 0"
| "urgency BLS = 1"
| "urgency ALS = 2"
| "urgency Critical = 3"

definition critical_flags :: "string set" where
  "critical_flags = {''unconscious'', ''bleeding''}"

definition als_flags :: "string set" where
  "als_flags = {''chest_pain'', ''breathlessness'', ''seizure'', ''stroke_signs''}"

definition age_outside :: "int option \<Rightarrow> bool" where
  "age_outside age = (case age of None \<Rightarrow> False | Some a \<Rightarrow> a < 12 \<or> 75 < a)"

definition classify_rules :: "string set \<Rightarrow> int option \<Rightarrow> severity_level" where
  "classify_rules flags age =
     (if flags \<inter> critical_flags \<noteq> {} then Critical
      else if flags \<inter> als_flags \<noteq> {} then ALS
      else if age_outside age \<and> flags \<noteq> {} then ALS
      else if flags \<noteq> {} then BLS
      else General)"

text \<open>
  The classify operation on a typed input: a list of strings and an optional integer.
\<close>

definition classify :: "string list \<Rightarrow> int option \<Rightarrow> error + string" where
  "classify flags age = level_from_flags (map PStr flags) (opt_int age)"

section \<open>Notions of the specification used in the statements\<close>

text \<open>
  A text contains a phrase in any letter case when some stretch of the text reads as the
  phrase, each character being the phrase's own or its ASCII capital.
\<close>

definition upper_ascii :: "char \<Rightarrow> char" where
  "upper_ascii c =
     (let n = (of_char c :: nat) in if 97 \<le> n \<and> n \<le> 122 then char_of (n - 32) else c)"

definition same_letter :: "char \<Rightarrow> char \<Rightarrow> bool" where
  "same_letter c p = (c = p \<or> c = upper_ascii p)"

fun starts_any_case :: "string \<Rightarrow> string \<Rightarrow> bool" where
  "starts_any_case s [] = True"
| "starts_any_case [] (p # ps) = False"
| "starts_any_case (c # cs) (p # ps) = (same_letter c p \<and> starts_any_case cs ps)"

fun contains_any_case :: "string \<Rightarrow> string \<Rightarrow> bool" where
  "contains_any_case [] p = (p = [])"
| "contains_any_case (c # cs) p = (starts_any_case (c # cs) p \<or> contains_any_case cs p)"

text \<open>The categories of \<^const>\<open>EMS_SYMPTOMS\<close> one of whose phrases occurs in a lower-cased text.\<close>

definition matched_categories :: "string \<Rightarrow> string set" where
  "matched_categories low =
     {flag. \<exists>phrases p. (flag, phrases) \<in> set EMS_SYMPTOMS \<and> p \<in> set phrases \<and> sublist p low}"

text \<open>The shapes of a value: a dictionary, an iterable, a sequence of strings.\<close>

fun is_dict :: "pyval \<Rightarrow> bool" where
  "is_dict (PDict d) = True"
| "is_dict v = False"

fun is_string :: "pyval \<Rightarrow> bool" where
  "is_string (PStr s) = True"
| "is_string v = False"

fun is_str_seq :: "pyval \<Rightarrow> bool" where
  "is_str_seq (PList xs) = list_all is_string xs"
| "is_str_seq v = False"

fun iterable :: "pyval \<Rightarrow> bool" where
  "iterable (PList xs) = True"
| "iterable (PStr s) = True"
| "iterable (PDict d) = True"
| "iterable v = False"

text \<open>The value of the key \<^verbatim>\<open>flags\<close> of a structured input, when it has one.\<close>

fun flags_arg :: "pyval \<Rightarrow> pyval option" where
  "flags_arg (PDict d) = map_of d ''flags''"
| "flags_arg v = None"




section \<open>Facts about the string operations\<close>

text \<open>
  The source's names start with an underscore (\<^verbatim>\<open>_extract_age\<close>, \<^verbatim>\<open>_flags_from_text\<close>,
  \<^verbatim>\<open>_level_from_flags\<close>, \<^verbatim>\<open>_redflags_core\<close>, \<^verbatim>\<open>_EMS_SYMPTOMS\<close>, \<^verbatim>\<open>_AGE_RX\<close>); the
  constants above carry the same names without it.
\<close>

lemma lower_upper_ascii:
  assumes "97 \<le> (of_char p :: nat)" and "(of_char p :: nat) \<le> 122"
  shows "lower_char (upper_ascii p) = p"
proof -
  define n where "n = (of_char p :: nat)"
  have u: "upper_ascii p = char_of (n - 32)"
    using assms by (simp add: upper_ascii_def n_def)
  have "(n - 32) mod 256 = n - 32" using assms by (simp add: n_def)
  then have m: "(of_char (char_of (n - 32) :: char) :: nat) = n - 32" by simp
  have r: "65 \<le> n - 32 \<and> n - 32 \<le> 90" using assms unfolding n_def by arith
  have "lower_char (char_of (n - 32)) = char_of (n - 32 + 32)"
    unfolding lower_char_def m Let_def using r by simp
  also have "n - 32 + 32 = n" using assms by (simp add: n_def)
  also have "char_of n = p" by (simp add: n_def)
  finally show ?thesis using u by simp
qed

lemma is_space_lower_char: "is_space c \<Longrightarrow> lower_char c = c"
proof -
  assume a: "is_space c"
  define n where "n = (of_char c :: nat)"
  from a have "(9 \<le> n \<and> n \<le> 13) \<or> (28 \<le> n \<and> n \<le> 32) \<or> n = 133 \<or> n = 160"
    by (simp add: is_space_def n_def Let_def)
  then have h: "\<not> ((65 \<le> n \<and> n \<le> 90) \<or> (192 \<le> n \<and> n \<le> 222 \<and> n \<noteq> 215))" by arith
  have e: "lower_char c =
      (if (65 \<le> n \<and> n \<le> 90) \<or> (192 \<le> n \<and> n \<le> 222 \<and> n \<noteq> 215) then char_of (n + 32) else c)"
    by (simp add: lower_char_def n_def Let_def)
  show ?thesis unfolding e using h by (rule if_not_P)
qed

lemma lower_char_same_letter:
  assumes "lower_char p = p" and "same_letter c p"
  shows "lower_char c = p"
proof -
  have "lower_char (upper_ascii p) = p"
  proof (cases "97 \<le> (of_char p :: nat) \<and> (of_char p :: nat) \<le> 122")
    case True
    then show ?thesis by (simp add: lower_upper_ascii)
  next
    case False
    then have "upper_ascii p = p" by (auto simp: upper_ascii_def Let_def)
    then show ?thesis using assms(1) by simp
  qed
  with assms show ?thesis by (auto simp: same_letter_def)
qed

lemma starts_any_case_lower:
  "lower p = p \<Longrightarrow> starts_any_case s p \<Longrightarrow> prefix p (lower s)"
proof (induction s p rule: starts_any_case.induct)
  case (3 c cs p ps)
  from "3.prems"(1) have lp: "lower_char p = p" and lps: "lower ps = ps"
    by (simp_all add: lower_def)
  from "3.prems"(2) have sl: "same_letter c p" and st: "starts_any_case cs ps" by simp_all
  have "lower_char c = p" using lp sl by (rule lower_char_same_letter)
  moreover have "prefix ps (lower cs)" using lps st by (rule "3.IH")
  ultimately show ?case by (simp add: lower_def)
qed (simp_all add: lower_def)

lemma contains_any_case_lower:
  "lower p = p \<Longrightarrow> contains_any_case s p \<Longrightarrow> sublist p (lower s)"
proof (induction s)
  case Nil
  then show ?case by (simp add: lower_def)
next
  case (Cons c cs)
  from Cons.prems(2) consider "starts_any_case (c # cs) p" | "contains_any_case cs p" by auto
  then show ?case
  proof cases
    case 1
    with Cons.prems(1) have "prefix p (lower (c # cs))" by (rule starts_any_case_lower)
    then show ?thesis by (rule prefix_imp_sublist)
  next
    case 2
    with Cons have "sublist p (lower cs)" by simp
    then show ?thesis by (simp add: lower_def sublist_Cons_right)
  qed
qed

lemma any_phrase_iff: "any_phrase ps low \<longleftrightarrow> (\<exists>p\<in>set ps. sublist p low)"
  by (induction ps) auto

lemma set_found_flags:
  "set (found_flags items low) =
     {flag. \<exists>phrases p. (flag, phrases) \<in> set items \<and> p \<in> set phrases \<and> sublist p low}"
proof (induction items low rule: found_flags.induct)
  case (1 low)
  then show ?case by simp
next
  case (2 flag phrases items low)
  then show ?case by (auto simp: any_phrase_iff)
qed

lemma set_flags_from_text: "set (flags_from_text t) = matched_categories (lower t)"
  by (simp add: flags_from_text_def matched_categories_def set_found_flags)

lemma sorted_flags_from_text: "sorted (flags_from_text t) \<and> distinct (flags_from_text t)"
  by (simp add: flags_from_text_def)

lemma strip_Nil_iff: "strip s = [] \<longleftrightarrow> (\<forall>c\<in>set s. is_space c)"
proof
  assume "strip s = []"
  then have a: "\<forall>c\<in>set (dropWhile is_space s). is_space c"
    by (simp add: strip_def dropWhile_eq_Nil_conv)
  have "dropWhile is_space s = []"
  proof (rule ccontr)
    assume n: "dropWhile is_space s \<noteq> []"
    then have "\<not> is_space (hd (dropWhile is_space s))" by (rule hd_dropWhile)
    moreover have "hd (dropWhile is_space s) \<in> set (dropWhile is_space s)" using n by simp
    ultimately show False using a by blast
  qed
  then show "\<forall>c\<in>set s. is_space c" by (simp add: dropWhile_eq_Nil_conv)
next
  assume "\<forall>c\<in>set s. is_space c"
  then have d: "dropWhile is_space s = []" by (simp add: dropWhile_eq_Nil_conv)
  show "strip s = []" unfolding strip_def d by simp
qed

lemma sublist_strip:
  assumes "sublist p (lower t)" and "x \<in> set p" and "\<not> is_space x"
  shows "strip t \<noteq> []"
proof -
  from assms(1) have "set p \<subseteq> set (lower t)" by (rule set_mono_sublist)
  with assms(2) obtain c where c: "c \<in> set t" "lower_char c = x" by (auto simp: lower_def)
  with assms(3) have "\<not> is_space c" using is_space_lower_char by fastforce
  with c(1) show ?thesis by (auto simp: strip_Nil_iff)
qed


text \<open>
  The range test of \<^const>\<open>extract_age\<close> decides nothing: whatever number the first match
  of the pattern parses to is returned.
\<close>

lemma extract_age_ignores_range:
  "AGE_RX_search text = Some g \<Longrightarrow> py_int g = Inr age \<Longrightarrow> extract_age text = Some age"
  by (simp add: extract_age_def)

text \<open>The specification's other two examples of age extraction.\<close>

lemma extract_age_34: "extract_age ''a 34 yr old patient'' = Some 34"
  by code_simp

lemma extract_age_none: "extract_age ''no age mentioned'' = None"
  by code_simp

section \<open>Facts about the classifier\<close>

lemma classify_rules_refine:
  "classify flags age = Inr (level_name (classify_rules (set flags) age))"
  unfolding classify_def level_from_flags_def classify_rules_def critical_flags_def
    als_flags_def age_escalates_def age_outside_def opt_int_def
  by (cases age) (auto simp: Let_def list_all_iff image_iff split: sum.splits bool.splits)

lemma level_from_flags_critical:
  assumes "set fl \<inter> critical_flags \<noteq> {}"
  shows "level_from_flags (map PStr fl) age = Inr ''Critical''"
proof -
  have h: "list_all hashable (map PStr fl)" by (simp add: list_all_iff)
  from assms have "set (map PStr fl) \<inter> {PStr ''unconscious'', PStr ''bleeding''} \<noteq> {}"
    by (auto simp: critical_flags_def)
  with h show ?thesis by (simp add: level_from_flags_def Let_def)
qed

lemma pipeline_critical:
  assumes "strip t \<noteq> []" and "set (flags_from_text t) \<inter> critical_flags \<noteq> {}"
  shows "field ''level_of_care'' (extract_then_classify (PStr t) h) = Some (PStr ''Critical'')"
proof -
  from assms(2) have "\<And>age. level_from_flags (map PStr (flags_from_text t)) age = Inr ''Critical''"
    by (rule level_from_flags_critical)
  with assms(1) show ?thesis
    by (simp add: extract_then_classify_def symptom_extract_tool_def redflags_validate_def
        redflags_core_def dict_get_def field_def Let_def)
qed

lemma lower_unconscious: "lower ''unconscious'' = ''unconscious''"
  by code_simp

lemma lower_bleeding: "lower ''bleeding'' = ''bleeding''"
  by code_simp

lemma not_space_u: "\<not> is_space CHR ''u''"
  by code_simp

lemma not_space_b: "\<not> is_space CHR ''b''"
  by code_simp

lemma py_list_error: "py_list v = Inl e \<Longrightarrow> e = TypeError"
  by (cases v) auto

lemma py_list_not_iterable: "\<not> iterable v \<Longrightarrow> py_list v = Inl TypeError"
  by (cases v) auto

lemma age_escalates_error: "age_escalates age f = Inl e \<Longrightarrow> e = TypeError"
  by (cases age) (auto simp: age_escalates_def split: if_splits bool.splits)

lemma level_from_flags_error: "level_from_flags flags age = Inl e \<Longrightarrow> e = TypeError"
  by (auto simp: level_from_flags_def Let_def split: if_splits sum.splits bool.splits
      dest: age_escalates_error)

lemma redflags_core_dict_error: "redflags_core (PDict d) = Inl e \<Longrightarrow> e = TypeError"
  by (auto simp: redflags_core_def Let_def split: sum.splits
      dest: py_list_error level_from_flags_error)

lemma redflags_core_not_dict:
  "\<not> is_dict v \<Longrightarrow> redflags_core v = Inl (McpError INVALID_PARAMS ''structured must be an object'')"
  by (cases v) (simp_all add: redflags_core_def)



section \<open>Facts about the locator\<close>






lemma py_or_cases:
  "py_or (Some (c # cs)) b = Some (c # cs)" "py_or (Some []) b = b" "py_or None b = b"
  by (simp_all add: py_or_def)




section \<open>The claims\<close>

text \<open>
  C1. The claim: with no age hint, when the first age expression of the text has a value
  outside 0 to 120, the extract operation returns no age. The code tests the range and
  then returns the number all the same: on the text \<^verbatim>\<open>age 150 years\<close> the field
  \<^verbatim>\<open>age_years\<close> of the result is 150.
\<close>

theorem out_of_range_age_returned:
  "field ''age_years'' (symptom_extract_tool (PStr ''age 150 years'') PNone) = Some (PInt 150)"
  by code_simp


text \<open>
  C2, as stated: the locator on an empty sequence of facilities fails with
  \<^verbatim>\<open>NoFacilityAvailable\<close>. It does not: the failure is the \<^verbatim>\<open>ValueError\<close> that \<^verbatim>\<open>min\<close>
  raises on an empty sequence, which is none of the signals the specification names.
\<close>

theorem empty_registry_not_NoFacilityAvailable:
  "find_hospital_tool exact [] ''Critical'' 0 0 = Inl ValueError
   \<and> failure_of (find_hospital_tool exact [] ''Critical'' 0 0) \<noteq> Some NoFacilityAvailable"
  by (simp add: find_hospital_tool_def py_min_def and_then_def failure_of_def)

text \<open>
  C2, amended: for every severity label and every coordinate pair, the locator on an
  empty sequence of facilities fails, with the built-in \<^verbatim>\<open>ValueError\<close>, whatever the
  arithmetic is.
\<close>

theorem empty_registry_ValueError:
  "find_hospital_tool ar [] severity lat lng = Inl ValueError"
  by (simp add: find_hospital_tool_def py_min_def and_then_def)

text \<open>
  C3. For every list of flags and every optional age, the classifier returns the level
  of the first matching rule of the specification's decision list; in particular an empty
  list of flags gives General for every age.
\<close>

theorem classify_first_matching_rule:
  "classify flags age = Inr (level_name (classify_rules (set flags) age))
   \<and> classify [] age = Inr ''General''"
proof
  show "classify flags age = Inr (level_name (classify_rules (set flags) age))"
    by (rule classify_rules_refine)
  have "classify [] age = Inr (level_name (classify_rules (set []) age))"
    by (rule classify_rules_refine)
  then show "classify [] age = Inr ''General''"
    by (simp add: classify_rules_def)
qed

theorem classify_first_matching_rule_witness:
  "classify [''fever''] (Some 80) = Inr ''ALS'' \<and> classify [] (Some 80) = Inr ''General''"
  using classify_first_matching_rule [of "[''fever'']" "Some 80"]
  by (simp add: classify_rules_def critical_flags_def als_flags_def age_outside_def)





text \<open>
  C5. For every text that contains \<^verbatim>\<open>unconscious\<close> or \<^verbatim>\<open>bleeding\<close> in any letter case,
  and every age hint, the extractor followed by the classifier returns a result whose
  \<^verbatim>\<open>level_of_care\<close> is Critical.
\<close>

theorem critical_phrase_gives_Critical:
  assumes "contains_any_case text ''unconscious'' \<or> contains_any_case text ''bleeding''"
  shows "field ''level_of_care'' (extract_then_classify (PStr text) age_years)
           = Some (PStr ''Critical'')"
  using assms
proof
  assume "contains_any_case text ''unconscious''"
  with lower_unconscious have s: "sublist ''unconscious'' (lower text)"
    by (rule contains_any_case_lower)
  have "(''unconscious'', [''unconscious'', ''not responding'', ''passed out'', ''fainted''])
          \<in> set EMS_SYMPTOMS"
    by (simp add: EMS_SYMPTOMS_def)
  with s have "''unconscious'' \<in> matched_categories (lower text)"
    unfolding matched_categories_def by fastforce
  then have f: "set (flags_from_text text) \<inter> critical_flags \<noteq> {}"
    by (auto simp: set_flags_from_text critical_flags_def)
  have "strip text \<noteq> []" using s _ not_space_u by (rule sublist_strip) simp
  then show ?thesis using f by (rule pipeline_critical)
next
  assume "contains_any_case text ''bleeding''"
  with lower_bleeding have s: "sublist ''bleeding'' (lower text)"
    by (rule contains_any_case_lower)
  have "(''bleeding'', [''bleeding'', ''profuse bleed'', ''blood everywhere'']) \<in> set EMS_SYMPTOMS"
    by (simp add: EMS_SYMPTOMS_def)
  with s have "''bleeding'' \<in> matched_categories (lower text)"
    unfolding matched_categories_def by fastforce
  then have f: "set (flags_from_text text) \<inter> critical_flags \<noteq> {}"
    by (auto simp: set_flags_from_text critical_flags_def)
  have "strip text \<noteq> []" using s _ not_space_b by (rule sublist_strip) simp
  then show ?thesis using f by (rule pipeline_critical)
qed

theorem critical_phrase_gives_Critical_witness:
  "(contains_any_case ''Chest pain, then UNCONSCIOUS; 80 yrs'' ''unconscious''
      \<or> contains_any_case ''Chest pain, then UNCONSCIOUS; 80 yrs'' ''bleeding'')
   \<and> field ''level_of_care''
        (extract_then_classify (PStr ''Chest pain, then UNCONSCIOUS; 80 yrs'') PNone)
       = Some (PStr ''Critical'')"
proof -
  have h: "contains_any_case ''Chest pain, then UNCONSCIOUS; 80 yrs'' ''unconscious''
      \<or> contains_any_case ''Chest pain, then UNCONSCIOUS; 80 yrs'' ''bleeding''"
    by code_simp
  from h critical_phrase_gives_Critical [OF h, of PNone] show ?thesis by (rule conjI)
qed


text \<open>
  C6. Classification is monotone under adding a flag: adding a flag of the critical
  category to any flags gives Critical, and adding a flag of the ALS category to flags
  that classified as General or BLS gives a level at least ALS.
\<close>

theorem classify_monotone:
  assumes "set flags' = insert c (set flags)"
  shows "(c \<in> critical_flags \<longrightarrow> classify flags' age = Inr ''Critical'')
       \<and> (c \<in> als_flags \<and> (classify flags age = Inr ''General'' \<or> classify flags age = Inr ''BLS'')
            \<longrightarrow> (\<exists>l. classify flags' age = Inr (level_name l) \<and> urgency ALS \<le> urgency l))"
proof (intro conjI impI)
  assume "c \<in> critical_flags"
  then have "set flags' \<inter> critical_flags \<noteq> {}" using assms by auto
  then show "classify flags' age = Inr ''Critical''"
    by (simp add: classify_rules_refine classify_rules_def)
next
  assume "c \<in> als_flags \<and> (classify flags age = Inr ''General'' \<or> classify flags age = Inr ''BLS'')"
  then have "set flags' \<inter> als_flags \<noteq> {}" using assms by auto
  then have "classify_rules (set flags') age = Critical \<or> classify_rules (set flags') age = ALS"
    by (simp add: classify_rules_def)
  then show "\<exists>l. classify flags' age = Inr (level_name l) \<and> urgency ALS \<le> urgency l"
    by (auto simp: classify_rules_refine)
qed

theorem classify_monotone_witness:
  "set [''bleeding'', ''fever''] = insert ''bleeding'' (set [''fever''])
   \<and> ''bleeding'' \<in> critical_flags
   \<and> classify [''bleeding'', ''fever''] (Some 30) = Inr ''Critical''
   \<and> set [''seizure'', ''fever''] = insert ''seizure'' (set [''fever''])
   \<and> ''seizure'' \<in> als_flags
   \<and> classify [''fever''] (Some 30) = Inr ''BLS''
   \<and> (\<exists>l. classify [''seizure'', ''fever''] (Some 30) = Inr (level_name l)
          \<and> urgency ALS \<le> urgency l)"
proof -
  have a: "set [''bleeding'', ''fever''] = insert ''bleeding'' (set [''fever''])" by simp
  have b: "set [''seizure'', ''fever''] = insert ''seizure'' (set [''fever''])" by simp
  have c: "classify [''fever''] (Some 30) = Inr ''BLS''" by code_simp
  have d: "''bleeding'' \<in> critical_flags" by (simp add: critical_flags_def)
  have e: "''seizure'' \<in> als_flags" by (simp add: als_flags_def)
  from classify_monotone [OF a, of "Some 30"] d
  have f: "classify [''bleeding'', ''fever''] (Some 30) = Inr ''Critical''" by blast
  from classify_monotone [OF b, of "Some 30"] e c
  have g: "\<exists>l. classify [''seizure'', ''fever''] (Some 30) = Inr (level_name l)
             \<and> urgency ALS \<le> urgency l"
    by blast
  from a b c d e f g show ?thesis by blast
qed

text \<open>
  C7, as stated: whenever the flags argument is not a sequence of strings, the classify
  operation fails with \<^verbatim>\<open>InvalidInput\<close>. It does not: a list of integers is classified
  without any failure, and a number raises \<^verbatim>\<open>TypeError\<close>, which is not \<^verbatim>\<open>InvalidInput\<close>.
\<close>

theorem flags_not_validated:
  "\<not> is_str_seq (PList [PInt 1])
   \<and> failure_of (redflags_core (PDict [(''flags'', PList [PInt 1])])) \<noteq> Some InvalidInput
   \<and> \<not> is_str_seq (PInt 5)
   \<and> failure_of (redflags_core (PDict [(''flags'', PInt 5)])) \<noteq> Some InvalidInput"
  by (simp add: redflags_core_def dict_get_def failure_of_def level_from_flags_def
      age_escalates_def)


text \<open>
  C7, amended: the classify operation fails with \<^verbatim>\<open>InvalidInput\<close> exactly when its
  structured argument is not a dictionary; the flags value is not checked, and one that is
  not iterable makes the operation fail with \<^verbatim>\<open>TypeError\<close>.
\<close>

theorem invalid_input_iff_not_dict:
  "(failure_of (redflags_core structured) = Some InvalidInput \<longleftrightarrow> \<not> is_dict structured)
   \<and> (\<forall>v. flags_arg structured = Some v \<and> \<not> iterable v
          \<longrightarrow> redflags_core structured = Inl TypeError)"
proof (intro conjI allI impI)
  show "failure_of (redflags_core structured) = Some InvalidInput \<longleftrightarrow> \<not> is_dict structured"
  proof (cases "is_dict structured")
    case True
    then obtain d where d: "structured = PDict d" by (cases structured) auto
    have "failure_of (redflags_core (PDict d)) \<noteq> Some InvalidInput"
    proof (cases "redflags_core (PDict d)")
      case (Inl e)
      then have "e = TypeError" by (rule redflags_core_dict_error)
      with Inl show ?thesis by (simp add: failure_of_def)
    next
      case (Inr r)
      then show ?thesis by (simp add: failure_of_def)
    qed
    with True d show ?thesis by simp
  next
    case False
    then show ?thesis by (simp add: redflags_core_not_dict failure_of_def)
  qed
next
  fix v
  assume a: "flags_arg structured = Some v \<and> \<not> iterable v"
  then obtain d where d: "structured = PDict d" by (cases structured) auto
  with a have "dict_get d ''flags'' (PList []) = v" by (simp add: dict_get_def)
  moreover from a have "py_list v = Inl TypeError" by (simp add: py_list_not_iterable)
  ultimately show "redflags_core structured = Inl TypeError"
    by (simp add: d redflags_core_def)
qed

theorem invalid_input_iff_not_dict_witness:
  "\<not> is_dict (PList [PStr ''fever''])
   \<and> failure_of (redflags_core (PList [PStr ''fever''])) = Some InvalidInput
   \<and> flags_arg (PDict [(''flags'', PInt 5)]) = Some (PInt 5) \<and> \<not> iterable (PInt 5)
   \<and> redflags_core (PDict [(''flags'', PInt 5)]) = Inl TypeError"
proof -
  have a: "\<not> is_dict (PList [PStr ''fever''])" by simp
  have b: "flags_arg (PDict [(''flags'', PInt 5)]) = Some (PInt 5) \<and> \<not> iterable (PInt 5)" by simp
  from invalid_input_iff_not_dict [of "PList [PStr ''fever'']"] a
  have c: "failure_of (redflags_core (PList [PStr ''fever''])) = Some InvalidInput" by blast
  from invalid_input_iff_not_dict [of "PDict [(''flags'', PInt 5)]"] b
  have d: "redflags_core (PDict [(''flags'', PInt 5)]) = Inl TypeError" by blast
  from a b c d show ?thesis by blast
qed


text \<open>
  C8. The severity label does not influence the locator: for the same facilities,
  latitude and longitude, any two labels give the same result, failure included,
  whatever the arithmetic is.
\<close>

theorem severity_not_used:
  "find_hospital_tool ar hospitals severity1 lat lng
     = find_hospital_tool ar hospitals severity2 lat lng"
  by (simp add: find_hospital_tool_def)




text \<open>
  C10. For every text that is not empty after stripping white space, and every age hint,
  the result of the extract operation has a field \<^verbatim>\<open>symptoms\<close> equal to its field
  \<^verbatim>\<open>flags\<close>, both the sorted list without repetition of the matched categories, and its
  \<^verbatim>\<open>free_text\<close> is the text itself.
\<close>

theorem symptoms_field_equals_flags:
  assumes "strip t \<noteq> []"
  shows "field ''symptoms'' (symptom_extract_tool (PStr t) age_years)
           = field ''flags'' (symptom_extract_tool (PStr t) age_years)
       \<and> field ''flags'' (symptom_extract_tool (PStr t) age_years)
           = Some (PList (map PStr (flags_from_text t)))
       \<and> field ''free_text'' (symptom_extract_tool (PStr t) age_years) = Some (PStr t)
       \<and> sorted (flags_from_text t) \<and> distinct (flags_from_text t)
       \<and> set (flags_from_text t) = matched_categories (lower t)"
proof -
  have "symptom_extract_tool (PStr t) age_years =
      Inr (PDict [(''age_years'', if age_years \<noteq> PNone then age_years else opt_int (extract_age t)),
                  (''free_text'', PStr t),
                  (''flags'', PList (map PStr (flags_from_text t))),
                  (''symptoms'', PList (map PStr (flags_from_text t)))])"
    using assms by (simp add: symptom_extract_tool_def Let_def)
  then show ?thesis
    by (simp add: field_def sorted_flags_from_text set_flags_from_text)
qed

theorem symptoms_field_equals_flags_witness:
  "strip ''high fever and a headache'' \<noteq> []
   \<and> field ''symptoms'' (symptom_extract_tool (PStr ''high fever and a headache'') PNone)
       = Some (PList [PStr ''fever'', PStr ''pain''])
   \<and> field ''flags'' (symptom_extract_tool (PStr ''high fever and a headache'') PNone)
       = Some (PList [PStr ''fever'', PStr ''pain''])
   \<and> field ''free_text'' (symptom_extract_tool (PStr ''high fever and a headache'') PNone)
       = Some (PStr ''high fever and a headache'')"
proof -
  have h: "strip ''high fever and a headache'' \<noteq> []" by code_simp
  have f: "flags_from_text ''high fever and a headache'' = [''fever'', ''pain'']" by code_simp
  from h symptoms_field_equals_flags [OF h, of PNone] f show ?thesis by simp
qed

end
